theory Spec2Isabelle
  imports Main
begin

section \<open>The locale resolver of the wallet (i18n core)\<close>

text \<open>
  The module embedded here is the second document of
  \<^verbatim>\<open>src/src/app/atoms/FormSecondaryButton.tsx\<close> (lines 62 to 225): the loader and
  resolver of locale message bundles. The values it handles are read at their declared
  types. A string is the list of its code units, taken below 256. An object is the list of
  its own properties in the order \<^verbatim>\<open>for ... in\<close> enumerates them, and a read
  \<^verbatim>\<open>obj[name]\<close> goes on to the object's prototype when the object has no such property
  of its own.
\<close>

subsection \<open>Exceptions\<close>

text \<open>
  A computation that may throw (or a promise that may reject) has the type
  \<open>js_error + 'a\<close>, \<open>Inl\<close> being the exception. \<open>try_catch\<close> is the statement
  \<^verbatim>\<open>try { body } catch (err) { handler }\<close>.
\<close>

datatype js_error = TypeError | OtherError string

definition try_catch :: "js_error + 'a \<Rightarrow> (js_error \<Rightarrow> js_error + 'a) \<Rightarrow> js_error + 'a" where
  "try_catch body handler = (case body of Inl err \<Rightarrow> handler err | Inr v \<Rightarrow> Inr v)"

subsection \<open>Objects and their prototype\<close>

text \<open>
  The bundles, the table \<^verbatim>\<open>cldrjs-locales.json\<close> and \<^verbatim>\<open>dateFnsLocales\<close> are plain
  objects: their prototype is \<^verbatim>\<open>Object.prototype\<close>, and \<^verbatim>\<open>obj[name]\<close> with one
  of that prototype's member names finds the member when \<open>obj\<close> has no property of its
  own under the name. Such a member is a function (the prototype itself for
  \<^verbatim>\<open>__proto__\<close>): it is truthy, and it has none of the properties the module reads
  (\<^verbatim>\<open>placeholders\<close>, \<^verbatim>\<open>message\<close>, \<^verbatim>\<open>numbers\<close>). \<open>Own v\<close> is a value found
  among the object's own properties, \<open>Inherited\<close> a member of the prototype, and
  \<open>None\<close> is \<^verbatim>\<open>undefined\<close>.
\<close>

datatype 'a member = Own 'a | Inherited

definition object_prototype_names :: "string list" where
  "object_prototype_names =
     [''constructor'', ''hasOwnProperty'', ''isPrototypeOf'', ''propertyIsEnumerable'',
      ''toLocaleString'', ''toString'', ''valueOf'', ''__proto__'', ''__defineGetter__'',
      ''__defineSetter__'', ''__lookupGetter__'', ''__lookupSetter__'']"

definition object_get :: "(string \<times> 'a) list \<Rightarrow> string \<Rightarrow> 'a member option" where
  "object_get obj name =
     (case map_of obj name of
        Some v \<Rightarrow> Some (Own v)
      | None \<Rightarrow> if name \<in> set object_prototype_names then Some Inherited else None)"

subsection \<open>Data model (the declarations of \<^verbatim>\<open>./types\<close>, as the code uses them)\<close>

text \<open>
  A placeholder descriptor is \<^verbatim>\<open>{ content: string }\<close>. Parsed JSON may lack the
  field, or hold something that is no string there: \<open>content = None\<close> stands for both
  (calling \<^verbatim>\<open>substring\<close> on either throws a TypeError).
\<close>

record placeholder =
  content :: "string option"

text \<open>
  \<open>placeholders\<close> and \<open>placeholderList\<close> are optional fields (\<open>None\<close> is
  \<^verbatim>\<open>undefined\<close>). \<open>placeholderList\<close> is a JavaScript array that may have holes:
  a hole is \<open>None\<close>.
\<close>

record LocaleMessage =
  message :: string
  placeholders :: "(string \<times> placeholder) list option"
  placeholderList :: "string option list option"

type_synonym LocaleMessages = "(string \<times> LocaleMessage) list"

record FetchedLocaleMessages =
  target :: "LocaleMessages option"
  fallback :: "LocaleMessages option"

text \<open>
  \<^verbatim>\<open>Substitutions\<close>: one value or an array of values. An omitted argument is
  \<open>Single v\<close> with \<open>v\<close> the value \<^verbatim>\<open>undefined\<close>.
\<close>

datatype 'v Substitutions = Single 'v | Many "'v list"

text \<open>
  The entries of \<^verbatim>\<open>cldrjs-locales.json\<close>; of an entry the code reads
  \<^verbatim>\<open>numbers['symbols-numberSystem-latn']\<close> only. The table itself is not part of the
  sources at hand and is a parameter: its entry \<^verbatim>\<open>en\<close>, which the code names
  statically, and the entries of the other locales.
\<close>

type_synonym symbols = "(string \<times> string) list"

record cldr_numbers =
  symbols_numberSystem_latn :: symbols

record cldr =
  numbers :: cldr_numbers

record cldr_table =
  en :: cldr
  other_locales :: "(string \<times> cldr) list"

definition cldr_lookup :: "cldr_table \<Rightarrow> string \<Rightarrow> cldr member option" where
  \<comment> \<open>\<^verbatim>\<open>cldrjsLocales[locale]\<close>\<close>
  "cldr_lookup tbl locale =
     (if locale = ''en'' then Some (Own (en tbl)) else object_get (other_locales tbl) locale)"

text \<open>
  The module's two variables (lines 84 to 89). \<^verbatim>\<open>cldrLocale\<close> holds what the table
  lookup of line 144 gave: an entry of the table or a member of its prototype.
\<close>

record resolver_state =
  fetchedLocaleMessages :: FetchedLocaleMessages
  cldrLocale :: "cldr member"

definition initial_state :: "cldr_table \<Rightarrow> resolver_state" where
  "initial_state cldrjsLocales =
     \<lparr> fetchedLocaleMessages = \<lparr> target = None, fallback = None \<rparr>,
       cldrLocale = Own (en cldrjsLocales) \<rparr>"

subsection \<open>Property keys\<close>

text \<open>
  \<open>string_of_nat\<close> is \<^verbatim>\<open>String(i)\<close> for an array index \<open>i\<close>: its decimal
  numeral.
\<close>

definition digit_char :: "nat \<Rightarrow> char" where
  "digit_char d = ''0123456789'' ! d"

function string_of_nat :: "nat \<Rightarrow> string" where
  "string_of_nat n =
     (if n < 10 then [digit_char n] else string_of_nat (n div 10) @ [digit_char (n mod 10)])"
  by pat_completeness auto
termination
  by (relation "measure id") auto

declare string_of_nat.simps [simp del]

text \<open>
  The key computed on line 157 is a name taken from \<open>placeholderList\<close> or the index
  itself. \<open>truthy\<close> is the test of line 158: the empty string and the number 0 are
  falsy. \<open>property_key\<close> is the conversion a computed property name goes through.
\<close>

datatype pkey = Name string | Index nat

fun truthy :: "pkey \<Rightarrow> bool" where
  "truthy (Name n) = (n \<noteq> [])"
| "truthy (Index i) = (i \<noteq> 0)"

fun property_key :: "pkey \<Rightarrow> string" where
  "property_key (Name n) = n"
| "property_key (Index i) = string_of_nat i"

text \<open>
  An object under construction, as the list of its properties in the order of their first
  insertion. \<open>obj_set prms k v\<close> is \<^verbatim>\<open>{ ...prms, [k]: v }\<close>: a key that is already
  there keeps its place and takes the new value.
\<close>

fun obj_set :: "(string \<times> 'v) list \<Rightarrow> string \<Rightarrow> 'v \<Rightarrow> (string \<times> 'v) list" where
  "obj_set [] k v = [(k, v)]"
| "obj_set ((k', v') # prms) k v =
     (if k' = k then (k', v) # prms else (k', v') # obj_set prms k v)"

subsection \<open>\<^verbatim>\<open>getMessage\<close> (lines 147 to 170)\<close>

text \<open>
  \<open>array_at xs i\<close> is the read \<^verbatim>\<open>xs?.[i]\<close> of an optional array: \<open>None\<close>
  (undefined) when the array is undefined, the index is out of range or the slot is a hole.
  \<open>messages_at ms name\<close> is \<^verbatim>\<open>ms?.[name]\<close> on an optional bundle, a read that
  goes through the prototype, and \<open>nullish\<close> is the operator \<^verbatim>\<open>??\<close>.
\<close>

definition array_at :: "'a option list option \<Rightarrow> nat \<Rightarrow> 'a option" where
  "array_at xs i =
     (case xs of None \<Rightarrow> None | Some l \<Rightarrow> if i < length l then l ! i else None)"

definition messages_at ::
  "LocaleMessages option \<Rightarrow> string \<Rightarrow> LocaleMessage member option" where
  "messages_at ms name = (case ms of None \<Rightarrow> None | Some m \<Rightarrow> object_get m name)"

definition nullish :: "'a option \<Rightarrow> 'a option \<Rightarrow> 'a option" where
  "nullish a b = (case a of Some v \<Rightarrow> Some v | None \<Rightarrow> b)"

text \<open>
  Modelled from the spec: \<^verbatim>\<open>toList\<close> of \<^verbatim>\<open>./helpers\<close> is not among the sources.
  The spec: ``Normalize substitutions into an ordered argument list (a single non-list
  value becomes a one-element list).''
\<close>

fun toList :: "'v Substitutions \<Rightarrow> 'v list" where
  "toList (Single v) = [v]"
| "toList (Many vs) = vs"

text \<open>
  Lines 156 to 159: the \<^verbatim>\<open>reduce\<close> over the argument list, from the empty object.
  \<open>pKey_at val i\<close> is line 157, \<open>reduce_params val subs i prms\<close> runs the callback
  on the arguments \<open>subs\<close>, the first of them at index \<open>i\<close>, with the accumulator
  \<open>prms\<close>.
\<close>

definition pKey_at :: "LocaleMessage \<Rightarrow> nat \<Rightarrow> pkey" where
  "pKey_at val i = (case array_at (placeholderList val) i of Some n \<Rightarrow> Name n | None \<Rightarrow> Index i)"

fun reduce_params ::
  "LocaleMessage \<Rightarrow> 'v list \<Rightarrow> nat \<Rightarrow> (string \<times> 'v) list \<Rightarrow> (string \<times> 'v) list" where
  "reduce_params val [] i prms = prms"
| "reduce_params val (sub # subs) i prms =
     (let pKey = pKey_at val i
      in reduce_params val subs (Suc i)
           (if truthy pKey then obj_set prms (property_key pKey) sub else prms))"

definition build_params :: "LocaleMessage \<Rightarrow> 'v list \<Rightarrow> (string \<times> 'v) list" where
  "build_params val args = reduce_params val args 0 []"

text \<open>
  Lines 154 to 169, the \<^verbatim>\<open>try\<close> statement, for the value \<open>val\<close> that was found.
  The result is a string or \<^verbatim>\<open>undefined\<close> (\<open>None\<close>): a member of the prototype
  has no \<^verbatim>\<open>placeholders\<close>, and its \<^verbatim>\<open>message\<close>, which line 164 returns, is
  undefined. \<^verbatim>\<open>processTemplate\<close> of \<^verbatim>\<open>./helpers\<close> is not among the sources: it is
  the parameter \<open>processTemplate\<close>, any function from the template and the parameter
  object to a string, which may throw.
\<close>

definition render_message ::
  "(string \<Rightarrow> (string \<times> 'v) list \<Rightarrow> js_error + string) \<Rightarrow> LocaleMessage member
     \<Rightarrow> 'v Substitutions \<Rightarrow> js_error + string option" where
  "render_message processTemplate val substitutions =
     try_catch
       (case val of
          Inherited \<Rightarrow> Inr None
        | Own msg \<Rightarrow>
            (case placeholders msg of
               Some _ \<Rightarrow>
                 (case processTemplate (message msg) (build_params msg (toList substitutions)) of
                    Inl err \<Rightarrow> Inl err
                  | Inr str \<Rightarrow> Inr (Some str))
             | None \<Rightarrow> Inr (Some (message msg))))
       (\<lambda>err. Inr (Some ''''))"

text \<open>
  Line 148, the value looked up, and the function as a whole. Every value that the
  lookup finds is an object or a function, so the test of line 150 lets it pass.
\<close>

definition find_message :: "resolver_state \<Rightarrow> string \<Rightarrow> LocaleMessage member option" where
  "find_message st messageName =
     nullish (messages_at (target (fetchedLocaleMessages st)) messageName)
             (messages_at (fallback (fetchedLocaleMessages st)) messageName)"

definition getMessage ::
  "(string \<Rightarrow> (string \<times> 'v) list \<Rightarrow> js_error + string) \<Rightarrow> resolver_state \<Rightarrow> string
     \<Rightarrow> 'v Substitutions \<Rightarrow> js_error + string option" where
  "getMessage processTemplate st messageName substitutions =
     (let val = find_message st messageName
      in case val of
           None \<Rightarrow> Inr (Some '''')
         | Some v \<Rightarrow> render_message processTemplate v substitutions)"

subsection \<open>Formatting metadata and the locales (lines 172 to 195)\<close>

text \<open>
  \<^verbatim>\<open>getNumberSymbols\<close> reads \<^verbatim>\<open>cldrLocale.numbers[...]\<close>: on a member of the
  prototype \<^verbatim>\<open>numbers\<close> is undefined and the index into it throws a TypeError.
\<close>

definition getCldrLocale :: "resolver_state \<Rightarrow> cldr member" where
  "getCldrLocale st = cldrLocale st"

definition getNumberSymbols :: "resolver_state \<Rightarrow> js_error + symbols" where
  "getNumberSymbols st =
     (case cldrLocale st of
        Own c \<Rightarrow> Inr (symbols_numberSystem_latn (numbers c))
      | Inherited \<Rightarrow> Inl TypeError)"

definition js_or :: "string option \<Rightarrow> string \<Rightarrow> string" where
  \<comment> \<open>\<^verbatim>\<open>a || b\<close> on an optional string: null, undefined and the empty string are falsy\<close>
  "js_or a b = (case a of None \<Rightarrow> b | Some s \<Rightarrow> if s = [] then b else s)"

text \<open>
  The collaborators of the module: the saved preference (\<^verbatim>\<open>getSavedLocale()\<close> of
  \<^verbatim>\<open>./saving\<close>, null when unset), the browser (\<^verbatim>\<open>browser.i18n.getUILanguage()\<close>,
  the manifest's \<^verbatim>\<open>default_locale\<close>, \<^verbatim>\<open>browser.runtime.getURL\<close>), the network
  (\<^verbatim>\<open>fetch\<close>, and \<^verbatim>\<open>json()\<close> of a response) and the table
  \<^verbatim>\<open>cldrjs-locales.json\<close>.
\<close>

record response =
  json :: "js_error + LocaleMessages"

record env =
  getSavedLocale :: "string option"
  getUILanguage :: string
  manifest_default_locale :: "string option"
  getURL :: "string \<Rightarrow> string"
  fetch :: "string \<Rightarrow> js_error + response"
  cldrjsLocales :: cldr_table

definition getNativeLocale :: "env \<Rightarrow> string" where
  "getNativeLocale e = getUILanguage e"

definition getCurrentLocale :: "env \<Rightarrow> string" where
  "getCurrentLocale e = js_or (getSavedLocale e) (getNativeLocale e)"

definition getDefaultLocale :: "env \<Rightarrow> string" where
  "getDefaultLocale e = js_or (manifest_default_locale e) ''en''"

datatype date_fns_locale =
  Locale_enUS | Locale_enGB | Locale_fr | Locale_zhCN | Locale_zhTW | Locale_ja | Locale_ko
  | Locale_uk | Locale_ru | Locale_es | Locale_ptBR

definition dateFnsLocales :: "(string \<times> date_fns_locale) list" where
  "dateFnsLocales =
     [(''en'', Locale_enUS), (''en_GB'', Locale_enGB), (''fr'', Locale_fr),
      (''zh_CN'', Locale_zhCN), (''zh_TW'', Locale_zhTW), (''ja'', Locale_ja),
      (''ko'', Locale_ko), (''uk'', Locale_uk), (''ru'', Locale_ru), (''es'', Locale_es),
      (''pt_BR'', Locale_ptBR)]"

definition getDateFnsLocale :: "env \<Rightarrow> date_fns_locale member" where
  "getDateFnsLocale e =
     (case object_get dateFnsLocales (getCurrentLocale e) of
        Some l \<Rightarrow> l
      | None \<Rightarrow> Own Locale_enUS)"

subsection \<open>\<^verbatim>\<open>appendPlaceholderLists\<close> (lines 213 to 225)\<close>

text \<open>
  Line 220, \<^verbatim>\<open>+content.substring(1) - 1\<close>. The unary plus is the conversion of a
  string to a number: blanks around the literal are dropped, the empty string is 0, and
  the literal is a decimal one (a sign, digits with a fraction, an exponent;
  \<^verbatim>\<open>Infinity\<close>) or an integer with a radix prefix (\<^verbatim>\<open>0x\<close>, \<^verbatim>\<open>0o\<close>,
  \<^verbatim>\<open>0b\<close>). \<open>string_to_number\<close> gives the real number the literal denotes, before
  it is rounded to a double: \<open>Finite neg D k\<close> is \<open>D * 10^k\<close>, negated when \<open>neg\<close>.
\<close>

definition digit_val :: "char \<Rightarrow> nat option" where
  "digit_val c = map_of (zip ''0123456789'' [0, 1, 2, 3, 4, 5, 6, 7, 8, 9]) c"

definition hex_val :: "char \<Rightarrow> nat option" where
  "hex_val c =
     map_of (zip ''0123456789abcdefABCDEF''
                 [0, 1, 2, 3, 4, 5, 6, 7, 8, 9, 10, 11, 12, 13, 14, 15, 10, 11, 12, 13, 14, 15]) c"

definition is_digit :: "char \<Rightarrow> bool" where
  "is_digit c = (digit_val c \<noteq> None)"

definition white_space :: "char \<Rightarrow> bool" where
  \<comment> \<open>tab, line feed, vertical tab, form feed, carriage return, space, no-break space\<close>
  "white_space c = (of_char c \<in> {9, 10, 11, 12, 13, 32, 160 :: nat})"

definition trim :: "string \<Rightarrow> string" where
  "trim s = rev (dropWhile white_space (rev (dropWhile white_space s)))"

fun read_digits :: "string \<Rightarrow> nat \<Rightarrow> nat option" where
  "read_digits [] acc = Some acc"
| "read_digits (c # cs) acc =
     (case digit_val c of None \<Rightarrow> None | Some d \<Rightarrow> read_digits cs (10 * acc + d))"

fun read_radix :: "nat \<Rightarrow> string \<Rightarrow> nat \<Rightarrow> nat option" where
  "read_radix b [] acc = Some acc"
| "read_radix b (c # cs) acc =
     (case hex_val c of
        None \<Rightarrow> None
      | Some d \<Rightarrow> if d < b then read_radix b cs (b * acc + d) else None)"

definition radix_of :: "char \<Rightarrow> nat option" where
  "radix_of c = map_of (zip ''xXoObB'' [16, 16, 8, 8, 2, 2]) c"

datatype js_number = NaN | Infinite bool | Finite bool nat int

definition signed_integer :: "string \<Rightarrow> int option" where
  "signed_integer s =
     (let (neg, ds) =
            (case s of
               [] \<Rightarrow> (False, [])
             | c # r \<Rightarrow> if c = CHR ''+'' then (False, r) else if c = CHR ''-'' then (True, r)
                        else (False, s))
      in if ds = [] then None
         else case read_digits ds 0 of
                None \<Rightarrow> None
              | Some n \<Rightarrow> Some (if neg then - int n else int n))"

definition exponent_part :: "string \<Rightarrow> int option" where
  \<comment> \<open>what follows the digits: nothing, or \<^verbatim>\<open>e\<close> and a signed integer\<close>
  "exponent_part s =
     (case s of
        [] \<Rightarrow> Some 0
      | c # r \<Rightarrow> if c = CHR ''e'' \<or> c = CHR ''E'' then signed_integer r else None)"

definition unsigned_decimal :: "string \<Rightarrow> (nat \<times> int) option" where
  \<comment> \<open>digits, a point and digits (one of the two runs of digits may be empty), an exponent\<close>
  "unsigned_decimal s =
     (let int_part = takeWhile is_digit s;
          rest = dropWhile is_digit s;
          (frac_part, rest') =
            (case rest of
               [] \<Rightarrow> ([], [])
             | c # r \<Rightarrow> if c = CHR ''.'' then (takeWhile is_digit r, dropWhile is_digit r)
                        else ([], rest))
      in if int_part = [] \<and> frac_part = [] then None
         else case exponent_part rest' of
                None \<Rightarrow> None
              | Some ex \<Rightarrow>
                  (case read_digits (int_part @ frac_part) 0 of
                     None \<Rightarrow> None
                   | Some D \<Rightarrow> Some (D, ex - int (length frac_part))))"

definition str_decimal :: "string \<Rightarrow> js_number" where
  "str_decimal s =
     (let (neg, u) =
            (case s of
               [] \<Rightarrow> (False, [])
             | c # r \<Rightarrow> if c = CHR ''+'' then (False, r) else if c = CHR ''-'' then (True, r)
                        else (False, s))
      in if u = ''Infinity'' then Infinite neg
         else case unsigned_decimal u of None \<Rightarrow> NaN | Some (D, k) \<Rightarrow> Finite neg D k)"

definition non_decimal :: "string \<Rightarrow> js_number option" where
  \<comment> \<open>a literal with a radix prefix, which takes no sign; \<open>None\<close> when there is no prefix\<close>
  "non_decimal s =
     (case s of
        z # x # ds \<Rightarrow>
          (case radix_of x of
             None \<Rightarrow> None
           | Some b \<Rightarrow>
               if z = CHR ''0''
               then Some (if ds = [] then NaN
                          else case read_radix b ds 0 of None \<Rightarrow> NaN | Some v \<Rightarrow> Finite False v 0)
               else None)
      | _ \<Rightarrow> None)"

definition string_to_number :: "string \<Rightarrow> js_number" where
  "string_to_number s =
     (let t = trim s
      in if t = [] then Finite False 0 0
         else case non_decimal t of Some n \<Rightarrow> n | None \<Rightarrow> str_decimal t)"

text \<open>
  The assignment of line 221 writes an element of the array when its key is an array
  index, an integer from 0 to \<open>2^32 - 2\<close>; the key is the number of line 220 less 1, so
  that number has to be an integer \<open>n\<close> from 1 to \<open>2^32 - 1\<close>. The number is the
  double nearest to the literal's value \<open>num / den\<close>, ties to the even significand, as
  the engines that run the extension round. Such an \<open>n\<close> has an even significand, its
  neighbours are \<open>2^(e-52)\<close> above and as much below (half as much when \<open>n\<close> is
  \<open>2^e\<close>), where \<open>e\<close> is the exponent of \<open>n\<close>; \<open>rounds_to n num den\<close> compares
  the value with the two midpoints, all scaled by \<open>2^54\<close>. Subtracting 1 from a double
  that is 1 or more is exact, and from a smaller one gives a negative number.

  For any other number the assignment adds a named property to the array object and
  leaves its elements as they are; no read of line 157 sees such a property, its index
  being an index of the argument array.
\<close>

function bit_length :: "nat \<Rightarrow> nat" where
  "bit_length n = (if n = 0 then 0 else Suc (bit_length (n div 2)))"
  by pat_completeness auto
termination
  by (relation "measure id") auto

declare bit_length.simps [simp del]

definition rounds_to :: "nat \<Rightarrow> nat \<Rightarrow> nat \<Rightarrow> bool" where
  "rounds_to n num den =
     (1 \<le> n \<and> n \<le> 4294967295 \<and>
      (let e = bit_length n - 1;
           below = (if n = 2 ^ e then 2 ^ e else 2 ^ (e + 1))
       in (n * 2 ^ 54 - below) * den \<le> num * 2 ^ 54
          \<and> num * 2 ^ 54 \<le> (n * 2 ^ 54 + 2 ^ (e + 1)) * den))"

definition index_of_value :: "nat \<Rightarrow> int \<Rightarrow> nat option" where
  "index_of_value D k =
     (let num = (if 0 \<le> k then D * 10 ^ nat k else D);
          den = (if 0 \<le> k then 1 else 10 ^ nat (- k));
          lo = num div den
      in if rounds_to lo num den then Some (lo - 1)
         else if rounds_to (Suc lo) num den then Some lo
         else None)"

definition index_of_content :: "string \<Rightarrow> nat option" where
  "index_of_content c =
     (case string_to_number (drop 1 c) of
        Finite neg D k \<Rightarrow> if neg then None else index_of_value D k
      | _ \<Rightarrow> None)"

text \<open>
  \<open>array_store xs i v\<close> is \<^verbatim>\<open>xs[i] = v\<close> on an array: beyond its end the array
  grows, and the slots in between are holes.
\<close>

definition array_store :: "'a option list \<Rightarrow> nat \<Rightarrow> 'a \<Rightarrow> 'a option list" where
  "array_store xs i v =
     (if i < length xs then xs[i := Some v]
      else xs @ replicate (i - length xs) None @ [Some v])"

text \<open>
  Lines 218 to 222, the inner loop over the placeholders still to be enumerated, with the
  list built so far. Destructuring gives \<^verbatim>\<open>content\<close>; \<^verbatim>\<open>content.substring\<close>
  throws when it is no string.
\<close>

fun store_placeholders ::
  "(string \<times> placeholder) list \<Rightarrow> string option list \<Rightarrow> js_error + string option list" where
  "store_placeholders [] lst = Inr lst"
| "store_placeholders ((pKey, d) # ps) lst =
     (case content d of
        None \<Rightarrow> Inl TypeError
      | Some c \<Rightarrow>
          store_placeholders ps
            (case index_of_content c of None \<Rightarrow> lst | Some index \<Rightarrow> array_store lst index pKey))"

text \<open>
  Lines 214 to 224, the outer loop. The function mutates the messages in place; here it
  returns them, or the exception that ended it.
\<close>

fun appendPlaceholderLists :: "LocaleMessages \<Rightarrow> js_error + LocaleMessages" where
  "appendPlaceholderLists [] = Inr []"
| "appendPlaceholderLists ((name, val) # messages) =
     (case (case placeholders val of
              None \<Rightarrow> Inr val
            | Some ps \<Rightarrow>
                (case store_placeholders ps [] of
                   Inl err \<Rightarrow> Inl err
                 | Inr lst \<Rightarrow> Inr (val\<lparr>placeholderList := Some lst\<rparr>))) of
        Inl err \<Rightarrow> Inl err
      | Inr val' \<Rightarrow>
          (case appendPlaceholderLists messages of
             Inl err \<Rightarrow> Inl err
           | Inr messages' \<Rightarrow> Inr ((name, val') # messages')))"

subsection \<open>\<^verbatim>\<open>fetchLocaleMessages\<close> (lines 197 to 211) and \<^verbatim>\<open>init\<close> (lines 125 to 145)\<close>

fun replace_first :: "char \<Rightarrow> char \<Rightarrow> string \<Rightarrow> string" where
  \<comment> \<open>\<^verbatim>\<open>s.replace(a, b)\<close> with a string pattern: the first occurrence only\<close>
  "replace_first a b [] = []"
| "replace_first a b (c # cs) = (if c = a then b # cs else c # replace_first a b cs)"

definition messages_url :: "env \<Rightarrow> string \<Rightarrow> string" where
  "messages_url e locale =
     (let dirName = replace_first (CHR ''-'') (CHR ''_'') locale
      in getURL e (''_locales/'' @ dirName @ ''/messages.json''))"

definition fetchLocaleMessages :: "env \<Rightarrow> string \<Rightarrow> js_error + LocaleMessages option" where
  "fetchLocaleMessages e locale =
     (let url = messages_url e locale
      in try_catch
           (case fetch e url of
              Inl err \<Rightarrow> Inl err
            | Inr res \<Rightarrow>
                (case json res of
                   Inl err \<Rightarrow> Inl err
                 | Inr messages \<Rightarrow>
                     (case appendPlaceholderLists messages of
                        Inl err \<Rightarrow> Inl err
                      | Inr messages' \<Rightarrow> Inr (Some messages'))))
           (\<lambda>err. Inr None))"

definition new_cldrLocale :: "env \<Rightarrow> cldr member" where
  \<comment> \<open>the right-hand side of line 144; an entry and a member of the prototype are truthy\<close>
  "new_cldrLocale e =
     (case cldr_lookup (cldrjsLocales e) (getCurrentLocale e) of
        Some c \<Rightarrow> c
      | None \<Rightarrow> Own (en (cldrjsLocales e)))"

text \<open>
  \<open>init\<close> as one uninterrupted run: the promise it returns is rejected (\<open>Inl\<close>) when
  one of the two promises given to \<^verbatim>\<open>Promise.all\<close> is, and otherwise resolves once
  the two assignments of lines 143 and 144 are done, with the new state.
\<close>

definition init :: "env \<Rightarrow> resolver_state \<Rightarrow> js_error + resolver_state" where
  "init e st =
     (let refetched = \<lparr> target = None, fallback = None \<rparr>;
          saved = getSavedLocale e;
          native = getNativeLocale e;
          def = getDefaultLocale e
      in case fetchLocaleMessages e (js_or saved native) of
           Inl err \<Rightarrow> Inl err
         | Inr t \<Rightarrow>
             (case fetchLocaleMessages e def of
                Inl err \<Rightarrow> Inl err
              | Inr f \<Rightarrow>
                  Inr (st\<lparr> fetchedLocaleMessages := refetched\<lparr> target := t, fallback := f \<rparr>,
                           cldrLocale := new_cldrLocale e \<rparr>)))"

subsection \<open>\<^verbatim>\<open>init\<close> on the event loop\<close>

text \<open>
  \<^verbatim>\<open>init\<close> is an async function: it runs to its \<^verbatim>\<open>await\<close> (line 134), and the
  rest of it runs in later turns of the event loop, between which other code runs: reads
  of the state, other calls of \<^verbatim>\<open>init\<close>. A call under way is a \<open>load\<close>: its local
  object \<^verbatim>\<open>refetched\<close> (line 126) and, for each of the two async functions given to
  \<^verbatim>\<open>Promise.all\<close>, whether it has finished. \<open>load_id\<close> numbers the calls in the
  order they were made.
\<close>

record load =
  load_id :: nat
  refetched :: FetchedLocaleMessages
  target_settled :: bool
  fallback_settled :: bool

record system =
  memory :: resolver_state
  in_flight :: "load list"
  started :: nat

definition new_load :: "nat \<Rightarrow> load" where
  "new_load n =
     \<lparr> load_id = n, refetched = \<lparr> target = None, fallback = None \<rparr>,
       target_settled = False, fallback_settled = False \<rparr>"

definition remove_at :: "nat \<Rightarrow> 'a list \<Rightarrow> 'a list" where
  "remove_at i xs = take i xs @ drop (Suc i) xs"

text \<open>
  One turn of the event loop that concerns \<^verbatim>\<open>init\<close>. \<open>world n\<close> is what call
  number \<open>n\<close> finds when it reads the preference, the browser and the network.
  \<^item> \<open>call_init\<close>: lines 126 to 134, up to the \<^verbatim>\<open>await\<close>.
  \<^item> \<open>target_settles\<close>, \<open>fallback_settles\<close>: lines 136 and 139, the assignment
    once \<^verbatim>\<open>fetchLocaleMessages\<close> has resolved.
  \<^item> \<open>init_returns\<close>: lines 143 and 144, once both have finished; the locale of line
    144 is read at that moment (\<open>now\<close>).
  \<^item> \<open>init_rejects\<close>: \<^verbatim>\<open>Promise.all\<close> rejects when one of the two does, and
    the call ends without an assignment.
\<close>

inductive step :: "(nat \<Rightarrow> env) \<Rightarrow> system \<Rightarrow> system \<Rightarrow> bool" for world :: "nat \<Rightarrow> env" where
  call_init:
    "step world s
       (s\<lparr> in_flight := in_flight s @ [new_load (started s)], started := Suc (started s) \<rparr>)"
| target_settles:
    "i < length (in_flight s) \<Longrightarrow> l = in_flight s ! i \<Longrightarrow> \<not> target_settled l \<Longrightarrow>
     e = world (load_id l) \<Longrightarrow>
     fetchLocaleMessages e (js_or (getSavedLocale e) (getNativeLocale e)) = Inr r \<Longrightarrow>
     step world s
       (s\<lparr> in_flight :=
             (in_flight s)[i := l\<lparr> refetched := (refetched l)\<lparr> target := r \<rparr>,
                                   target_settled := True \<rparr>] \<rparr>)"
| fallback_settles:
    "i < length (in_flight s) \<Longrightarrow> l = in_flight s ! i \<Longrightarrow> \<not> fallback_settled l \<Longrightarrow>
     e = world (load_id l) \<Longrightarrow>
     fetchLocaleMessages e (getDefaultLocale e) = Inr r \<Longrightarrow>
     step world s
       (s\<lparr> in_flight :=
             (in_flight s)[i := l\<lparr> refetched := (refetched l)\<lparr> fallback := r \<rparr>,
                                   fallback_settled := True \<rparr>] \<rparr>)"
| init_returns:
    "i < length (in_flight s) \<Longrightarrow> l = in_flight s ! i \<Longrightarrow> target_settled l \<Longrightarrow>
     fallback_settled l \<Longrightarrow>
     step world s
       (s\<lparr> memory := (memory s)\<lparr> fetchedLocaleMessages := refetched l,
                                 cldrLocale := new_cldrLocale now \<rparr>,
           in_flight := remove_at i (in_flight s) \<rparr>)"
| init_rejects:
    "i < length (in_flight s) \<Longrightarrow> l = in_flight s ! i \<Longrightarrow> e = world (load_id l) \<Longrightarrow>
     fetchLocaleMessages e (js_or (getSavedLocale e) (getNativeLocale e)) = Inl err
       \<or> fetchLocaleMessages e (getDefaultLocale e) = Inl err \<Longrightarrow>
     step world s (s\<lparr> in_flight := remove_at i (in_flight s) \<rparr>)"

text \<open>\<open>run world s s'\<close>: \<open>s'\<close> is reached from \<open>s\<close> in any number of turns.\<close>

inductive run :: "(nat \<Rightarrow> env) \<Rightarrow> system \<Rightarrow> system \<Rightarrow> bool" for world :: "nat \<Rightarrow> env" where
  run_refl: "run world s s"
| run_step: "run world s s' \<Longrightarrow> step world s' s'' \<Longrightarrow> run world s s''"

definition boot :: "resolver_state \<Rightarrow> system" where
  "boot st = \<lparr> memory = st, in_flight = [], started = 0 \<rparr>"

subsection \<open>Vocabulary of the properties\<close>

text \<open>
  A fetch fails when \<^verbatim>\<open>fetch\<close> rejects or the body of the response is not JSON. A
  bundle has a malformed descriptor when one of its messages declares a placeholder
  without a content string.
\<close>

definition fetch_fails :: "env \<Rightarrow> string \<Rightarrow> bool" where
  "fetch_fails e locale =
     (case fetch e (messages_url e locale) of
        Inl err \<Rightarrow> True
      | Inr res \<Rightarrow> (case json res of Inl err \<Rightarrow> True | Inr messages \<Rightarrow> False))"

definition has_malformed_descriptor :: "LocaleMessages \<Rightarrow> bool" where
  "has_malformed_descriptor messages =
     list_ex (\<lambda>(name, val).
        case placeholders val of
          None \<Rightarrow> False
        | Some ps \<Rightarrow> list_ex (\<lambda>(pKey, d). content d = None) ps) messages"

definition serves :: "env \<Rightarrow> string \<Rightarrow> LocaleMessages \<Rightarrow> bool" where
  \<comment> \<open>the network answers the request for the locale's bundle with these messages\<close>
  "serves e locale messages =
     (case fetch e (messages_url e locale) of
        Inl err \<Rightarrow> False
      | Inr res \<Rightarrow> json res = Inr messages)"

definition slot_of :: "placeholder \<Rightarrow> nat option" where
  \<comment> \<open>the array index a descriptor decodes to, if any\<close>
  "slot_of d = (case content d of None \<Rightarrow> None | Some c \<Rightarrow> index_of_content c)"

subsection \<open>Invariant of the event loop\<close>

text \<open>
  \<open>loaded_pair e fetched\<close>: the two slots of \<open>fetched\<close> are what the two calls of
  \<^verbatim>\<open>fetchLocaleMessages\<close> of one and the same load resolve to. \<open>load_ok\<close>: a slot of
  a call under way that has been assigned holds the result of that call's own fetch.
\<close>

definition loaded_pair :: "env \<Rightarrow> FetchedLocaleMessages \<Rightarrow> bool" where
  "loaded_pair e fetched =
     (fetchLocaleMessages e (js_or (getSavedLocale e) (getNativeLocale e)) = Inr (target fetched) \<and>
      fetchLocaleMessages e (getDefaultLocale e) = Inr (fallback fetched))"

definition load_ok :: "(nat \<Rightarrow> env) \<Rightarrow> nat \<Rightarrow> load \<Rightarrow> bool" where
  "load_ok world bound l =
     (load_id l < bound \<and>
      (target_settled l \<longrightarrow>
         fetchLocaleMessages (world (load_id l))
           (js_or (getSavedLocale (world (load_id l))) (getNativeLocale (world (load_id l))))
         = Inr (target (refetched l))) \<and>
      (fallback_settled l \<longrightarrow>
         fetchLocaleMessages (world (load_id l)) (getDefaultLocale (world (load_id l)))
         = Inr (fallback (refetched l))))"

definition consistent :: "(nat \<Rightarrow> env) \<Rightarrow> FetchedLocaleMessages \<Rightarrow> system \<Rightarrow> bool" where
  "consistent world old s =
     ((\<forall>l \<in> set (in_flight s). load_ok world (started s) l) \<and>
      (fetchedLocaleMessages (memory s) = old \<or>
       (\<exists>n < started s. loaded_pair (world n) (fetchedLocaleMessages (memory s)))))"

subsection \<open>Example data\<close>

text \<open>
  The bundle of the specification's examples, as parsed from JSON and as it is after the
  load; a message whose only placeholder is the second argument; a message whose
  \<^verbatim>\<open>placeholders\<close> object is empty; a message with two placeholders for the same
  argument; a bundle with a descriptor that has no content.
\<close>

definition greet_json :: LocaleMessage where
  "greet_json =
     \<lparr> message = ''Hi $name$'',
       placeholders = Some [(''name'', \<lparr> content = Some ''$1'' \<rparr>)],
       placeholderList = None \<rparr>"

definition greet :: LocaleMessage where
  "greet = greet_json\<lparr> placeholderList := Some [Some ''name''] \<rparr>"

definition title :: LocaleMessage where
  "title = \<lparr> message = ''Wallet'', placeholders = None, placeholderList = None \<rparr>"

definition second_only :: LocaleMessage where
  "second_only =
     \<lparr> message = ''To $name$'',
       placeholders = Some [(''name'', \<lparr> content = Some ''$2'' \<rparr>)],
       placeholderList = Some [None, Some ''name''] \<rparr>"

definition no_names :: LocaleMessage where
  "no_names = \<lparr> message = ''Sent'', placeholders = Some [], placeholderList = Some [] \<rparr>"

definition twice_json :: LocaleMessage where
  "twice_json =
     \<lparr> message = ''$user$, $owner$'',
       placeholders = Some [(''user'', \<lparr> content = Some ''$1'' \<rparr>),
                            (''owner'', \<lparr> content = Some ''$1'' \<rparr>)],
       placeholderList = None \<rparr>"

definition en_json :: LocaleMessages where
  "en_json = [(''greet'', greet_json), (''title'', title)]"

definition broken_json :: LocaleMessages where
  "broken_json =
     [(''title'', title\<lparr> message := ''Portefeuille'' \<rparr>),
      (''greet'', \<lparr> message = ''Salut $name$'',
                    placeholders = Some [(''name'', \<lparr> content = None \<rparr>)],
                    placeholderList = None \<rparr>)]"

definition example_table :: cldr_table where
  "example_table =
     \<lparr> en = \<lparr> numbers = \<lparr> symbols_numberSystem_latn = [(''decimal'', ''.''), (''group'', '','')] \<rparr> \<rparr>,
       other_locales =
         [(''fr'', \<lparr> numbers = \<lparr> symbols_numberSystem_latn = [(''decimal'', '',''), (''group'', '' '')] \<rparr> \<rparr>)] \<rparr>"

text \<open>
  Four environments: a browser in German whose extension ships the English bundle only;
  one where every fetch is rejected; one with French saved as the preference and a French
  bundle that has the malformed descriptor; one where the saved preference is the string
  \<^verbatim>\<open>constructor\<close>.
\<close>

definition example_env :: env where
  "example_env =
     \<lparr> getSavedLocale = None, getUILanguage = ''de'', manifest_default_locale = Some ''en'',
       getURL = (\<lambda>path. ''/'' @ path),
       fetch = (\<lambda>url. if url = ''/_locales/en/messages.json''
                       then Inr \<lparr> json = Inr en_json \<rparr>
                       else Inl (OtherError ''Failed to fetch'')),
       cldrjsLocales = example_table \<rparr>"

definition offline_env :: env where
  "offline_env = example_env\<lparr> fetch := (\<lambda>url. Inl (OtherError ''Failed to fetch'')) \<rparr>"

definition broken_env :: env where
  "broken_env =
     example_env\<lparr> getSavedLocale := Some ''fr'',
       fetch := (\<lambda>url. if url = ''/_locales/en/messages.json'' then Inr \<lparr> json = Inr en_json \<rparr>
                        else if url = ''/_locales/fr/messages.json''
                        then Inr \<lparr> json = Inr broken_json \<rparr>
                        else Inl (OtherError ''Failed to fetch'')) \<rparr>"

definition constructor_env :: env where
  "constructor_env = example_env\<lparr> getSavedLocale := Some ''constructor'' \<rparr>"

definition echo_template :: "string \<Rightarrow> (string \<times> string) list \<Rightarrow> js_error + string" where
  \<comment> \<open>a template processor that returns the template as it is\<close>
  "echo_template str prms = Inr str"

definition failing_template :: "string \<Rightarrow> (string \<times> string) list \<Rightarrow> js_error + string" where
  \<comment> \<open>a template processor that always throws\<close>
  "failing_template str prms = Inl (OtherError ''Invalid regular expression'')"

text \<open>One complete load on the event loop, turn by turn.\<close>

definition example_world :: "nat \<Rightarrow> env" where
  "example_world n = example_env"

definition en_loaded :: LocaleMessages where
  "en_loaded = [(''greet'', greet), (''title'', title)]"

definition en_state :: resolver_state where
  \<comment> \<open>the state after a load that fetched the English bundle as the target\<close>
  "en_state =
     \<lparr> fetchedLocaleMessages = \<lparr> target = Some en_loaded, fallback = None \<rparr>,
       cldrLocale = Own (en example_table) \<rparr>"

definition turn1 :: system where
  "turn1 = \<lparr> memory = initial_state example_table, in_flight = [new_load 0], started = 1 \<rparr>"

definition turn2 :: system where
  "turn2 =
     \<lparr> memory = initial_state example_table,
       in_flight = [\<lparr> load_id = 0, refetched = \<lparr> target = None, fallback = None \<rparr>,
                      target_settled = True, fallback_settled = False \<rparr>],
       started = 1 \<rparr>"

definition turn3 :: system where
  "turn3 =
     \<lparr> memory = initial_state example_table,
       in_flight = [\<lparr> load_id = 0, refetched = \<lparr> target = None, fallback = Some en_loaded \<rparr>,
                      target_settled = True, fallback_settled = True \<rparr>],
       started = 1 \<rparr>"

definition turn4 :: system where
  "turn4 =
     \<lparr> memory = \<lparr> fetchedLocaleMessages = \<lparr> target = None, fallback = Some en_loaded \<rparr>,
                  cldrLocale = Own (en example_table) \<rparr>,
       in_flight = [], started = 1 \<rparr>"

section \<open>Properties of \<^verbatim>\<open>getMessage\<close>\<close>

lemma try_catch_returns: "(\<And>err. \<exists>v. h err = Inr v) \<Longrightarrow> \<exists>v. try_catch b h = Inr v"
  by (cases b) (auto simp: try_catch_def)

lemma render_message_returns: "\<exists>r. render_message pt val subs = Inr r"
  unfolding render_message_def by (rule try_catch_returns) simp

lemma getMessage_returns: "\<exists>r. getMessage pt st k subs = Inr r"
  unfolding getMessage_def Let_def
  by (cases "find_message st k") (simp_all add: render_message_returns)

lemma getMessage_unset:
  "target (fetchedLocaleMessages st) = None \<Longrightarrow> fallback (fetchedLocaleMessages st) = None
   \<Longrightarrow> getMessage pt st k subs = Inr (Some '''')"
  by (simp add: getMessage_def find_message_def nullish_def messages_at_def)

lemma object_get_own_only:
  "name \<notin> set object_prototype_names \<Longrightarrow>
   object_get obj name = (case map_of obj name of None \<Rightarrow> None | Some v \<Rightarrow> Some (Own v))"
  by (simp add: object_get_def split: option.splits)

lemma getMessage_missing_key:
  "k \<notin> set object_prototype_names \<Longrightarrow> messages_at (target (fetchedLocaleMessages st)) k = None
   \<Longrightarrow> messages_at (fallback (fetchedLocaleMessages st)) k = None
   \<Longrightarrow> getMessage pt st k subs = Inr (Some '''')"
  by (simp add: getMessage_def find_message_def nullish_def)

text \<open>
  C1. The specification has \<^verbatim>\<open>getMessage\<close> return the empty string, and never
  \<^verbatim>\<open>undefined\<close>, for a key that neither bundle holds. The lookup of line 148 also
  finds the members of \<^verbatim>\<open>Object.prototype\<close>: with the English bundle loaded, which
  has no message named \<^verbatim>\<open>constructor\<close>, the call \<^verbatim>\<open>getMessage('constructor')\<close>
  passes the test of line 150 and returns \<^verbatim>\<open>undefined\<close> on line 164.
\<close>

theorem inherited_key_returns_undefined:
  "map_of en_loaded ''constructor'' = None \<and>
   fallback (fetchedLocaleMessages en_state) = None \<and>
   getMessage echo_template en_state ''constructor'' (Many []) = Inr None"
  by (simp add: en_state_def en_loaded_def getMessage_def find_message_def nullish_def
      messages_at_def object_get_def object_prototype_names_def render_message_def try_catch_def)

text \<open>
  C2. The specification has every argument bound: under the name at its position in
  \<open>placeholderList\<close>, or else under its index. Line 158 tests the key for truthiness,
  and the index 0 is falsy: the first argument of a message that has no name at position 0
  gets no binding, while any later argument without a name is bound under its index.
\<close>

theorem first_argument_unbound:
  "array_at (placeholderList second_only) 0 = None \<and>
   build_params second_only [''Ann'', ''Bob''] = [(''name'', ''Bob'')] \<and>
   build_params no_names [''Ann'', ''Bob'', ''Cid''] = [(''1'', ''Bob''), (''2'', ''Cid'')]"
  by (simp add: second_only_def no_names_def build_params_def pKey_at_def array_at_def
      string_of_nat.simps digit_char_def)

lemma render_message_throwing:
  "placeholders val = Some ps \<Longrightarrow> pt (message val) (build_params val (toList subs)) = Inl err
   \<Longrightarrow> render_message pt (Own val) subs = Inr (Some '''')"
  by (simp add: render_message_def try_catch_def)

text \<open>
  C3. For every key, substitutions and state, \<^verbatim>\<open>getMessage\<close> returns a value: no
  exception leaves it, whatever the template processor does. When the processor throws on
  the message found, the call returns the empty string.
\<close>

theorem getMessage_catches:
  "(\<exists>r. getMessage pt st k subs = Inr r) \<and>
   (\<forall>val ps err. find_message st k = Some (Own val) \<and> placeholders val = Some ps \<and>
       pt (message val) (build_params val (toList subs)) = Inl err
     \<longrightarrow> getMessage pt st k subs = Inr (Some ''''))"
proof (intro conjI allI impI)
  show "\<exists>r. getMessage pt st k subs = Inr r"
    by (rule getMessage_returns)
next
  fix val ps err
  assume "find_message st k = Some (Own val) \<and> placeholders val = Some ps \<and>
       pt (message val) (build_params val (toList subs)) = Inl err"
  then show "getMessage pt st k subs = Inr (Some '''')"
    by (simp add: getMessage_def render_message_throwing)
qed

theorem getMessage_catches_witness:
  "find_message en_state ''greet'' = Some (Own greet)
   \<and> failing_template (message greet) (build_params greet (toList (Many [''Ann''])))
       = Inl (OtherError ''Invalid regular expression'')
   \<and> getMessage failing_template en_state ''greet'' (Many [''Ann'']) = Inr (Some '''')"
proof -
  have found: "find_message en_state ''greet'' = Some (Own greet)"
    by (simp add: find_message_def nullish_def messages_at_def object_get_def en_state_def
        en_loaded_def)
  have ph: "placeholders greet = Some [(''name'', \<lparr> content = Some ''$1'' \<rparr>)]"
    by (simp add: greet_def greet_json_def)
  have throws: "failing_template (message greet) (build_params greet (toList (Many [''Ann''])))
      = Inl (OtherError ''Invalid regular expression'')"
    by (simp add: failing_template_def)
  from getMessage_catches [of failing_template en_state "''greet''" "Many [''Ann'']"]
  have "getMessage failing_template en_state ''greet'' (Many [''Ann'']) = Inr (Some '''')"
    using found ph throws by blast
  with found throws show ?thesis
    by simp
qed

text \<open>
  C7. For every key and every single value \<open>v\<close> that is not a list,
  \<^verbatim>\<open>getMessage(key, v)\<close> and \<^verbatim>\<open>getMessage(key, [v])\<close> return the same.
\<close>

theorem getMessage_single_is_singleton:
  "getMessage pt st k (Single v) = getMessage pt st k (Many [v])"
  by (cases "find_message st k")
     (simp_all add: getMessage_def render_message_def split: option.splits member.splits)

text \<open>
  C10. Before the first load the two bundle slots are null and the cached metadata is the
  entry \<^verbatim>\<open>en\<close>: \<^verbatim>\<open>getMessage\<close> returns the empty string for every key,
  \<^verbatim>\<open>getCldrLocale\<close> returns the entry \<^verbatim>\<open>en\<close> and \<^verbatim>\<open>getNumberSymbols\<close> its symbol
  table.
\<close>

theorem initial_state_degraded:
  "getMessage pt (initial_state tbl) k subs = Inr (Some '''') \<and>
   getCldrLocale (initial_state tbl) = Own (en tbl) \<and>
   getNumberSymbols (initial_state tbl) = Inr (symbols_numberSystem_latn (numbers (en tbl)))"
  by (simp add: getMessage_unset initial_state_def getCldrLocale_def getNumberSymbols_def)

section \<open>Properties of the load\<close>

lemma is_digit_set: "is_digit c \<longleftrightarrow> c \<in> set ''0123456789''"
  unfolding is_digit_def digit_val_def by (simp add: map_of_eq_None_iff del: set_simps) auto

lemma digit_not_other:
  assumes "is_digit c"
  shows "\<not> white_space c" and "radix_of c = None" and "c \<noteq> CHR ''+''" and "c \<noteq> CHR ''-''"
    and "c \<noteq> CHR ''.''" and "c \<noteq> CHR ''I''"
  using assms unfolding is_digit_set by (auto simp: white_space_def radix_of_def)

lemma digit_val_digit_char_all: "\<forall>d<10. digit_val (digit_char d) = Some d"
  by (simp add: eval_nat_numeral All_less_Suc digit_val_def digit_char_def)

lemma digit_val_digit_char: "d < 10 \<Longrightarrow> digit_val (digit_char d) = Some d"
  using digit_val_digit_char_all by blast

lemma is_digit_digit_char: "d < 10 \<Longrightarrow> is_digit (digit_char d)"
  by (simp add: is_digit_def digit_val_digit_char)

lemma read_digits_append:
  "read_digits (xs @ ys) acc =
     (case read_digits xs acc of None \<Rightarrow> None | Some a \<Rightarrow> read_digits ys a)"
  by (induction xs arbitrary: acc) (simp_all split: option.splits)

lemma read_digits_string_of_nat: "read_digits (string_of_nat n) 0 = Some n"
proof (induction n rule: string_of_nat.induct)
  case (1 n)
  show ?case
  proof (cases "n < 10")
    case True
    then show ?thesis
      by (subst string_of_nat.simps) (simp add: digit_val_digit_char)
  next
    case False
    then have "read_digits (string_of_nat (n div 10)) 0 = Some (n div 10)"
      by (rule "1.IH")
    with False show ?thesis
      by (subst string_of_nat.simps) (simp add: read_digits_append digit_val_digit_char)
  qed
qed

lemma string_of_nat_digits: "list_all is_digit (string_of_nat n) \<and> string_of_nat n \<noteq> []"
proof (induction n rule: string_of_nat.induct)
  case (1 n)
  show ?case
  proof (cases "n < 10")
    case True
    then show ?thesis
      by (subst (1 2) string_of_nat.simps) (simp add: is_digit_digit_char)
  next
    case False
    with "1.IH" show ?thesis
      by (subst (1 2) string_of_nat.simps) (simp add: is_digit_digit_char)
  qed
qed

lemma trim_digits: "list_all is_digit s \<Longrightarrow> trim s = s"
proof -
  assume digits: "list_all is_digit s"
  have front: "dropWhile white_space s = s"
    using digits by (cases s) (simp_all add: digit_not_other)
  have "dropWhile white_space (rev s) = rev s"
  proof (cases "rev s")
    case Nil
    then show ?thesis by simp
  next
    case (Cons c cs)
    then have "c \<in> set s"
      by (metis list.set_intros(1) set_rev)
    then have "is_digit c"
      using digits by (simp add: list_all_iff)
    then show ?thesis
      using Cons by (simp add: digit_not_other)
  qed
  with front show ?thesis
    by (simp add: trim_def)
qed

lemma non_decimal_digits: "list_all is_digit s \<Longrightarrow> non_decimal s = None"
  by (cases s rule: list.exhaust [case_product list.exhaust])
     (auto simp: non_decimal_def digit_not_other split: list.splits)

lemma str_decimal_digits:
  assumes "list_all is_digit s" and "s \<noteq> []" and "read_digits s 0 = Some D"
  shows "str_decimal s = Finite False D 0"
proof -
  obtain c r where s: "s = c # r"
    using assms(2) by (cases s) auto
  then have c: "is_digit c"
    using assms(1) by simp
  have all: "takeWhile is_digit s = s" "dropWhile is_digit s = []"
    using assms(1) by (simp_all add: list_all_iff)
  have "s \<noteq> ''Infinity''"
    using c s digit_not_other(6) by auto
  moreover have "unsigned_decimal s = Some (D, 0)"
    using assms(2,3) by (simp add: unsigned_decimal_def all exponent_part_def)
  ultimately show ?thesis
    using c by (simp add: str_decimal_def s digit_not_other)
qed

lemma index_of_value_integer:
  "1 \<le> N \<Longrightarrow> N \<le> 4294967295 \<Longrightarrow> index_of_value N 0 = Some (N - 1)"
  by (simp add: index_of_value_def rounds_to_def Let_def)

lemma index_of_content_dollar:
  assumes "1 \<le> N" and "N \<le> 4294967295"
  shows "index_of_content (CHR ''$'' # string_of_nat N) = Some (N - 1)"
proof -
  let ?s = "string_of_nat N"
  have digits: "list_all is_digit ?s" and nonempty: "?s \<noteq> []"
    using string_of_nat_digits by simp_all
  have "string_to_number ?s = Finite False N 0"
    using nonempty
    by (simp add: string_to_number_def trim_digits [OF digits] non_decimal_digits [OF digits]
        str_decimal_digits [OF digits nonempty read_digits_string_of_nat])
  then show ?thesis
    using assms by (simp add: index_of_content_def index_of_value_integer)
qed

lemma index_of_content_one: "index_of_content ''$1'' = Some 0"
  by (simp add: index_of_content_def string_to_number_def trim_def white_space_def
      non_decimal_def radix_of_def str_decimal_def unsigned_decimal_def is_digit_def digit_val_def
      exponent_part_def index_of_value_integer)

lemma array_at_store:
  "array_at (Some (array_store xs i v)) j = (if j = i then Some v else array_at (Some xs) j)"
  by (auto simp: array_at_def array_store_def nth_append nth_list_update)

lemma store_placeholders_untouched:
  "store_placeholders ps lst = Inr lst' \<Longrightarrow> \<forall>q < length ps. slot_of (snd (ps ! q)) \<noteq> Some j
   \<Longrightarrow> array_at (Some lst') j = array_at (Some lst) j"
proof (induction ps arbitrary: lst)
  case Nil
  then show ?case by simp
next
  case (Cons a ps)
  obtain pKey d where a: "a = (pKey, d)"
    by (cases a)
  from Cons.prems(1) a obtain c where c: "content d = Some c"
    by (cases "content d") auto
  let ?lst = "case index_of_content c of None \<Rightarrow> lst | Some index \<Rightarrow> array_store lst index pKey"
  have run: "store_placeholders ps ?lst = Inr lst'"
    using Cons.prems(1) a c by simp
  have rest: "\<forall>q < length ps. slot_of (snd (ps ! q)) \<noteq> Some j"
    using Cons.prems(2) by (metis Suc_less_eq length_Cons nth_Cons_Suc)
  have "slot_of (snd ((a # ps) ! 0)) \<noteq> Some j"
    using Cons.prems(2) by (metis length_Cons zero_less_Suc)
  then have here: "index_of_content c \<noteq> Some j"
    using a c by (simp add: slot_of_def)
  have "array_at (Some ?lst) j = array_at (Some lst) j"
    using here by (cases "index_of_content c") (simp_all add: array_at_store)
  with Cons.IH [OF run rest] show ?case
    by simp
qed

lemma store_placeholders_last:
  "store_placeholders ps lst = Inr lst' \<Longrightarrow> p < length ps \<Longrightarrow> ps ! p = (pKey, d) \<Longrightarrow>
   slot_of d = Some j \<Longrightarrow> \<forall>q. p < q \<and> q < length ps \<longrightarrow> slot_of (snd (ps ! q)) \<noteq> Some j
   \<Longrightarrow> array_at (Some lst') j = Some pKey"
proof (induction ps arbitrary: lst p)
  case Nil
  then show ?case by simp
next
  case (Cons a ps)
  obtain k0 d0 where a: "a = (k0, d0)"
    by (cases a)
  from Cons.prems(1) a obtain c where c: "content d0 = Some c"
    by (cases "content d0") auto
  let ?lst = "case index_of_content c of None \<Rightarrow> lst | Some index \<Rightarrow> array_store lst index k0"
  have run: "store_placeholders ps ?lst = Inr lst'"
    using Cons.prems(1) a c by simp
  have shift: "slot_of (snd (ps ! q)) \<noteq> Some j" if "p \<le> q" and "q < length ps" for q
  proof -
    have "p < Suc q \<and> Suc q < length (a # ps)"
      using that by simp
    then have "slot_of (snd ((a # ps) ! Suc q)) \<noteq> Some j"
      using Cons.prems(5) by blast
    then show ?thesis by simp
  qed
  show ?case
  proof (cases p)
    case 0
    then have eq: "k0 = pKey" "d0 = d"
      using Cons.prems(3) a by simp_all
    have rest: "\<forall>q < length ps. slot_of (snd (ps ! q)) \<noteq> Some j"
      using shift 0 by simp
    have "index_of_content c = Some j"
      using Cons.prems(4) eq c by (simp add: slot_of_def)
    then have "array_at (Some ?lst) j = Some pKey"
      using eq by (simp add: array_at_store)
    with store_placeholders_untouched [OF run rest] show ?thesis
      by simp
  next
    case (Suc p')
    have 1: "p' < length ps"
      using Cons.prems(2) Suc by simp
    have 2: "ps ! p' = (pKey, d)"
      using Cons.prems(3) Suc by simp
    have 3: "\<forall>q. p' < q \<and> q < length ps \<longrightarrow> slot_of (snd (ps ! q)) \<noteq> Some j"
      using shift Suc by simp
    show ?thesis
      by (rule Cons.IH [OF run 1 2 Cons.prems(4) 3])
  qed
qed

lemma appendPlaceholderLists_message:
  "appendPlaceholderLists ms = Inr ms' \<Longrightarrow> map_of ms name = Some val \<Longrightarrow>
   placeholders val = Some ps \<Longrightarrow>
   \<exists>lst. store_placeholders ps [] = Inr lst
     \<and> map_of ms' name = Some (val\<lparr>placeholderList := Some lst\<rparr>)"
proof (induction ms arbitrary: ms')
  case Nil
  then show ?case by simp
next
  case (Cons a ms)
  obtain n v where a: "a = (n, v)"
    by (cases a)
  from Cons.prems(1) a obtain v' rest where
    v': "(case placeholders v of None \<Rightarrow> Inr v
          | Some ps \<Rightarrow> (case store_placeholders ps [] of Inl err \<Rightarrow> Inl err
                        | Inr lst \<Rightarrow> Inr (v\<lparr>placeholderList := Some lst\<rparr>))) = Inr v'"
    and rest: "appendPlaceholderLists ms = Inr rest" and ms': "ms' = (n, v') # rest"
    by (auto split: sum.splits)
  show ?case
  proof (cases "n = name")
    case True
    then have "v = val"
      using Cons.prems(2) a by simp
    then show ?thesis
      using v' Cons.prems(3) ms' True by (auto split: sum.splits)
  next
    case False
    then have "map_of ms name = Some val"
      using Cons.prems(2) a by simp
    from Cons.IH [OF rest this Cons.prems(3)] show ?thesis
      using ms' False by simp
  qed
qed

lemma store_placeholders_malformed:
  "list_ex (\<lambda>(pKey, d). content d = None) ps \<Longrightarrow> store_placeholders ps lst = Inl TypeError"
  by (induction ps arbitrary: lst) (auto split: option.splits)

lemma appendPlaceholderLists_malformed:
  "has_malformed_descriptor ms \<Longrightarrow> \<exists>err. appendPlaceholderLists ms = Inl err"
  unfolding has_malformed_descriptor_def
proof (induction ms)
  case Nil
  then show ?case by simp
next
  case (Cons a ms)
  obtain n v where a: "a = (n, v)"
    by (cases a)
  show ?case
  proof (cases "case placeholders v of None \<Rightarrow> False
                | Some ps \<Rightarrow> list_ex (\<lambda>(pKey, d). content d = None) ps")
    case True
    then show ?thesis
      using a by (auto simp: store_placeholders_malformed split: option.splits)
  next
    case False
    then have "\<exists>err. appendPlaceholderLists ms = Inl err"
      using Cons a by simp
    then show ?thesis
      using a by (auto split: option.splits sum.splits)
  qed
qed

lemma fetchLocaleMessages_returns: "\<exists>r. fetchLocaleMessages e locale = Inr r"
  by (auto simp: fetchLocaleMessages_def try_catch_def Let_def split: sum.splits)

lemma fetchLocaleMessages_fails:
  "fetch_fails e locale \<Longrightarrow> fetchLocaleMessages e locale = Inr None"
  by (auto simp: fetchLocaleMessages_def fetch_fails_def try_catch_def Let_def split: sum.splits)

lemma fetchLocaleMessages_malformed:
  "serves e locale ms \<Longrightarrow> has_malformed_descriptor ms \<Longrightarrow> fetchLocaleMessages e locale = Inr None"
  using appendPlaceholderLists_malformed [of ms]
  by (auto simp: fetchLocaleMessages_def serves_def try_catch_def Let_def split: sum.splits)

lemma fetchLocaleMessages_served:
  "serves e locale ms \<Longrightarrow> fetchLocaleMessages e locale = Inr (Some ms') \<Longrightarrow>
   appendPlaceholderLists ms = Inr ms'"
  by (auto simp: fetchLocaleMessages_def serves_def try_catch_def Let_def split: sum.splits)

lemma init_result:
  "init e st = Inr (st\<lparr> fetchedLocaleMessages :=
       \<lparr> target = projr (fetchLocaleMessages e (js_or (getSavedLocale e) (getNativeLocale e))),
         fallback = projr (fetchLocaleMessages e (getDefaultLocale e)) \<rparr>,
     cldrLocale := new_cldrLocale e \<rparr>)"
  using fetchLocaleMessages_returns [of e "js_or (getSavedLocale e) (getNativeLocale e)"]
    fetchLocaleMessages_returns [of e "getDefaultLocale e"]
  by (auto simp: init_def Let_def)

lemma getMessage_target_unset:
  "target (fetchedLocaleMessages st) = None \<Longrightarrow>
   getMessage pt st k subs =
     (case messages_at (fallback (fetchedLocaleMessages st)) k of
        None \<Rightarrow> Inr (Some '''') | Some v \<Rightarrow> render_message pt v subs)"
  by (simp add: getMessage_def find_message_def nullish_def messages_at_def)

lemma getMessage_fallback_unset:
  "fallback (fetchedLocaleMessages st) = None \<Longrightarrow>
   getMessage pt st k subs =
     (case messages_at (target (fetchedLocaleMessages st)) k of
        None \<Rightarrow> Inr (Some '''') | Some v \<Rightarrow> render_message pt v subs)"
  by (cases "messages_at (target (fetchedLocaleMessages st)) k")
     (simp_all add: getMessage_def find_message_def nullish_def messages_at_def)

lemma example_target_fetch:
  "fetchLocaleMessages example_env
     (js_or (getSavedLocale example_env) (getNativeLocale example_env)) = Inr None"
  by (simp add: fetchLocaleMessages_def try_catch_def example_env_def js_or_def
      getNativeLocale_def messages_url_def)

lemma appendPlaceholderLists_en: "appendPlaceholderLists en_json = Inr en_loaded"
  by (simp add: en_json_def en_loaded_def greet_def greet_json_def title_def
      index_of_content_one array_store_def)

lemma example_fallback_fetch:
  "fetchLocaleMessages example_env (getDefaultLocale example_env) = Inr (Some en_loaded)"
  by (simp add: fetchLocaleMessages_def try_catch_def example_env_def getDefaultLocale_def
      js_or_def messages_url_def appendPlaceholderLists_en)

text \<open>
  C4. \<^verbatim>\<open>init\<close> never rejects. A fetch that fails leaves its slot null; when both fail,
  \<^verbatim>\<open>getMessage\<close> on the state that \<^verbatim>\<open>init\<close> leaves returns the empty string for
  every key and every substitutions.
\<close>

theorem init_never_rejects:
  "(\<exists>st'. init e st = Inr st') \<and>
   (\<forall>st'. init e st = Inr st' \<longrightarrow>
      (fetch_fails e (js_or (getSavedLocale e) (getNativeLocale e)) \<longrightarrow>
         target (fetchedLocaleMessages st') = None) \<and>
      (fetch_fails e (getDefaultLocale e) \<longrightarrow> fallback (fetchedLocaleMessages st') = None) \<and>
      (fetch_fails e (js_or (getSavedLocale e) (getNativeLocale e)) \<and>
       fetch_fails e (getDefaultLocale e) \<longrightarrow>
         (\<forall>k subs. getMessage pt st' k subs = Inr (Some ''''))))"
proof (intro conjI allI impI)
  show "\<exists>st'. init e st = Inr st'"
    using init_result by blast
next
  fix st'
  assume "init e st = Inr st'"
    and "fetch_fails e (js_or (getSavedLocale e) (getNativeLocale e))"
  then show "target (fetchedLocaleMessages st') = None"
    using init_result [of e st] by (auto simp: fetchLocaleMessages_fails)
next
  fix st'
  assume "init e st = Inr st'" and "fetch_fails e (getDefaultLocale e)"
  then show "fallback (fetchedLocaleMessages st') = None"
    using init_result [of e st] by (auto simp: fetchLocaleMessages_fails)
next
  fix st' k and subs :: "'a Substitutions"
  assume "init e st = Inr st'"
    and "fetch_fails e (js_or (getSavedLocale e) (getNativeLocale e))
       \<and> fetch_fails e (getDefaultLocale e)"
  then have "target (fetchedLocaleMessages st') = None"
    and "fallback (fetchedLocaleMessages st') = None"
    using init_result [of e st] by (auto simp: fetchLocaleMessages_fails)
  then show "getMessage pt st' k subs = Inr (Some '''')"
    by (rule getMessage_unset)
qed

theorem init_never_rejects_witness:
  "fetch_fails offline_env (js_or (getSavedLocale offline_env) (getNativeLocale offline_env))
   \<and> fetch_fails offline_env (getDefaultLocale offline_env)
   \<and> (\<exists>st'. init offline_env (initial_state example_table) = Inr st'
         \<and> target (fetchedLocaleMessages st') = None
         \<and> fallback (fetchedLocaleMessages st') = None
         \<and> getMessage echo_template st' ''greet'' (Many [''Ann'']) = Inr (Some ''''))"
proof -
  have f1: "fetch_fails offline_env (js_or (getSavedLocale offline_env) (getNativeLocale offline_env))"
    by (simp add: fetch_fails_def offline_env_def)
  have f2: "fetch_fails offline_env (getDefaultLocale offline_env)"
    by (simp add: fetch_fails_def offline_env_def)
  from init_never_rejects [of offline_env "initial_state example_table" echo_template]
  show ?thesis
    using f1 f2 by blast
qed

text \<open>
  C8. The specification has the cached metadata default to the entry \<^verbatim>\<open>en\<close> when
  the table has no entry for the active locale, so that \<^verbatim>\<open>getNumberSymbols\<close> returns
  the symbols of \<^verbatim>\<open>en\<close>. The lookup of line 144 also finds the members of
  \<^verbatim>\<open>Object.prototype\<close>: with the saved preference \<^verbatim>\<open>constructor\<close>, for which the
  table has no entry, \<^verbatim>\<open>init\<close> caches the inherited member in place of the entry
  \<^verbatim>\<open>en\<close>, and \<^verbatim>\<open>getNumberSymbols\<close> then throws.
\<close>

theorem inherited_locale_not_defaulted:
  "getCurrentLocale constructor_env = ''constructor'' \<and>
   map_of (other_locales (cldrjsLocales constructor_env)) ''constructor'' = None \<and>
   init constructor_env (initial_state example_table) =
     Inr \<lparr> fetchedLocaleMessages = \<lparr> target = None, fallback = Some en_loaded \<rparr>,
           cldrLocale = Inherited \<rparr> \<and>
   getNumberSymbols \<lparr> fetchedLocaleMessages = \<lparr> target = None, fallback = Some en_loaded \<rparr>,
                      cldrLocale = Inherited \<rparr> = Inl TypeError"
proof (intro conjI)
  show cur: "getCurrentLocale constructor_env = ''constructor''"
    by (simp add: getCurrentLocale_def js_or_def constructor_env_def)
  show "map_of (other_locales (cldrjsLocales constructor_env)) ''constructor'' = None"
    by (simp add: constructor_env_def example_env_def example_table_def)
  have t: "fetchLocaleMessages constructor_env
      (js_or (getSavedLocale constructor_env) (getNativeLocale constructor_env)) = Inr None"
    by (simp add: fetchLocaleMessages_def try_catch_def constructor_env_def example_env_def
        js_or_def messages_url_def)
  have f: "fetchLocaleMessages constructor_env (getDefaultLocale constructor_env)
      = Inr (Some en_loaded)"
    by (simp add: fetchLocaleMessages_def try_catch_def constructor_env_def example_env_def
        getDefaultLocale_def js_or_def messages_url_def appendPlaceholderLists_en)
  have c: "new_cldrLocale constructor_env = Inherited"
    unfolding new_cldrLocale_def cur
    by (simp add: cldr_lookup_def object_get_def object_prototype_names_def constructor_env_def
        example_env_def example_table_def)
  show "init constructor_env (initial_state example_table) =
      Inr \<lparr> fetchedLocaleMessages = \<lparr> target = None, fallback = Some en_loaded \<rparr>,
            cldrLocale = Inherited \<rparr>"
    by (simp add: init_def t f c initial_state_def)
  show "getNumberSymbols \<lparr> fetchedLocaleMessages = \<lparr> target = None, fallback = Some en_loaded \<rparr>,
      cldrLocale = Inherited \<rparr> = Inl TypeError"
    by (simp add: getNumberSymbols_def)
qed

text \<open>
  C5, as the specification has it, fails: the list has one slot for each position. Two
  placeholders may name the same argument; the one enumerated later overwrites the slot,
  and the earlier one, whose content is \<^verbatim>\<open>$1\<close> too, is not in the list.
\<close>

theorem later_placeholder_overwrites:
  "placeholders twice_json =
     Some [(''user'', \<lparr> content = Some ''$1'' \<rparr>), (''owner'', \<lparr> content = Some ''$1'' \<rparr>)]
   \<and> appendPlaceholderLists [(''owned'', twice_json)] =
       Inr [(''owned'', twice_json\<lparr> placeholderList := Some [Some ''owner''] \<rparr>)]
   \<and> array_at (Some [Some ''owner'']) 0 \<noteq> Some ''user''"
  by (simp add: twice_json_def index_of_content_one array_store_def array_at_def)

text \<open>
  C5, amended. Take a bundle that was fetched with success and a message of it that
  declares placeholders. A placeholder whose content is \<^verbatim>\<open>$N\<close>, for \<open>N\<close> from 1 to
  \<open>2^32 - 1\<close>, is stored in the message's \<open>placeholderList\<close> at index \<open>N - 1\<close>,
  unless a placeholder enumerated after it decodes to the same index: the slot holds the
  name enumerated last.
\<close>

theorem placeholderList_position:
  assumes "serves e locale ms"
    and "fetchLocaleMessages e locale = Inr (Some ms')"
    and "map_of ms name = Some val"
    and "placeholders val = Some ps"
    and "p < length ps"
    and "ps ! p = (pKey, d)"
    and "content d = Some (CHR ''$'' # string_of_nat N)"
    and "1 \<le> N"
    and "N \<le> 4294967295"
    and "\<forall>q. p < q \<and> q < length ps \<longrightarrow> slot_of (snd (ps ! q)) \<noteq> Some (N - 1)"
  shows "\<exists>val'. map_of ms' name = Some val' \<and> array_at (placeholderList val') (N - 1) = Some pKey"
proof -
  have "appendPlaceholderLists ms = Inr ms'"
    using assms(1,2) by (rule fetchLocaleMessages_served)
  then obtain lst where lst: "store_placeholders ps [] = Inr lst"
    and val': "map_of ms' name = Some (val\<lparr>placeholderList := Some lst\<rparr>)"
    using appendPlaceholderLists_message assms(3,4) by blast
  have "slot_of d = Some (N - 1)"
    using assms(7-9) by (simp add: slot_of_def index_of_content_dollar)
  with lst assms(5,6) have "array_at (Some lst) (N - 1) = Some pKey"
    using assms(10) by (rule store_placeholders_last)
  with val' show ?thesis
    by simp
qed

theorem placeholderList_position_witness:
  "serves example_env ''en'' en_json
   \<and> fetchLocaleMessages example_env ''en'' = Inr (Some en_loaded)
   \<and> map_of en_json ''greet'' = Some greet_json
   \<and> (\<exists>val'. map_of en_loaded ''greet'' = Some val'
         \<and> array_at (placeholderList val') 0 = Some ''name'')"
proof -
  let ?ps = "[(''name'', \<lparr> content = Some ''$1'' \<rparr>)]"
  have one: "string_of_nat 1 = ''1''"
    by (simp add: string_of_nat.simps digit_char_def)
  have h1: "serves example_env ''en'' en_json"
    by (simp add: serves_def example_env_def messages_url_def)
  have h2: "fetchLocaleMessages example_env ''en'' = Inr (Some en_loaded)"
    by (simp add: fetchLocaleMessages_def try_catch_def example_env_def messages_url_def
        appendPlaceholderLists_en)
  have h3: "map_of en_json ''greet'' = Some greet_json"
    by (simp add: en_json_def)
  have h4: "placeholders greet_json = Some ?ps"
    by (simp add: greet_json_def)
  have h5: "0 < length ?ps"
    by simp
  have h6: "?ps ! 0 = (''name'', \<lparr> content = Some ''$1'' \<rparr>)"
    by simp
  have h7: "content \<lparr> content = Some ''$1'' \<rparr> = Some (CHR ''$'' # string_of_nat 1)"
    unfolding one by simp
  have h10: "\<forall>q. 0 < q \<and> q < length ?ps \<longrightarrow> slot_of (snd (?ps ! q)) \<noteq> Some (1 - 1)"
    by simp
  from placeholderList_position [OF h1 h2 h3 h4 h5 h6 h7 _ _ h10]
  have "\<exists>val'. map_of en_loaded ''greet'' = Some val'
      \<and> array_at (placeholderList val') (1 - 1) = Some ''name''"
    by simp
  with h1 h2 h3 show ?thesis
    by simp
qed

text \<open>
  C9. When a bundle that the network serves has a message with a placeholder descriptor
  that lacks its content string, \<^verbatim>\<open>fetchLocaleMessages\<close> returns null for the whole
  locale. As the target bundle, its slot is null after \<^verbatim>\<open>init\<close> and every key
  resolves in the fallback bundle or to the empty string; as the fallback bundle, its
  slot is null and every key resolves in the target bundle or to the empty string.
\<close>

theorem malformed_descriptor_drops_bundle:
  assumes "has_malformed_descriptor ms"
  shows "(serves e locale ms \<longrightarrow> fetchLocaleMessages e locale = Inr None)
     \<and> (serves e (js_or (getSavedLocale e) (getNativeLocale e)) ms \<longrightarrow>
          (\<exists>st'. init e st = Inr st' \<and> target (fetchedLocaleMessages st') = None \<and>
             (\<forall>k subs. getMessage pt st' k subs =
                (case messages_at (fallback (fetchedLocaleMessages st')) k of
                   None \<Rightarrow> Inr (Some '''') | Some v \<Rightarrow> render_message pt v subs))))
     \<and> (serves e (getDefaultLocale e) ms \<longrightarrow>
          (\<exists>st'. init e st = Inr st' \<and> fallback (fetchedLocaleMessages st') = None \<and>
             (\<forall>k subs. getMessage pt st' k subs =
                (case messages_at (target (fetchedLocaleMessages st')) k of
                   None \<Rightarrow> Inr (Some '''') | Some v \<Rightarrow> render_message pt v subs))))"
proof (intro conjI impI)
  assume "serves e locale ms"
  then show "fetchLocaleMessages e locale = Inr None"
    using assms by (rule fetchLocaleMessages_malformed)
next
  let ?st = "st\<lparr> fetchedLocaleMessages :=
       \<lparr> target = projr (fetchLocaleMessages e (js_or (getSavedLocale e) (getNativeLocale e))),
         fallback = projr (fetchLocaleMessages e (getDefaultLocale e)) \<rparr>,
     cldrLocale := new_cldrLocale e \<rparr>"
  assume "serves e (js_or (getSavedLocale e) (getNativeLocale e)) ms"
  then have "fetchLocaleMessages e (js_or (getSavedLocale e) (getNativeLocale e)) = Inr None"
    using assms by (rule fetchLocaleMessages_malformed)
  then have unset: "target (fetchedLocaleMessages ?st) = None"
    by simp
  have "\<forall>k subs. getMessage pt ?st k subs =
      (case messages_at (fallback (fetchedLocaleMessages ?st)) k of
         None \<Rightarrow> Inr (Some '''') | Some v \<Rightarrow> render_message pt v subs)"
    using getMessage_target_unset [OF unset] by blast
  with init_result [of e st] unset
  show "\<exists>st'. init e st = Inr st' \<and> target (fetchedLocaleMessages st') = None \<and>
      (\<forall>k subs. getMessage pt st' k subs =
         (case messages_at (fallback (fetchedLocaleMessages st')) k of
            None \<Rightarrow> Inr (Some '''') | Some v \<Rightarrow> render_message pt v subs))"
    by blast
next
  let ?st = "st\<lparr> fetchedLocaleMessages :=
       \<lparr> target = projr (fetchLocaleMessages e (js_or (getSavedLocale e) (getNativeLocale e))),
         fallback = projr (fetchLocaleMessages e (getDefaultLocale e)) \<rparr>,
     cldrLocale := new_cldrLocale e \<rparr>"
  assume "serves e (getDefaultLocale e) ms"
  then have "fetchLocaleMessages e (getDefaultLocale e) = Inr None"
    using assms by (rule fetchLocaleMessages_malformed)
  then have unset: "fallback (fetchedLocaleMessages ?st) = None"
    by simp
  have "\<forall>k subs. getMessage pt ?st k subs =
      (case messages_at (target (fetchedLocaleMessages ?st)) k of
         None \<Rightarrow> Inr (Some '''') | Some v \<Rightarrow> render_message pt v subs)"
    using getMessage_fallback_unset [OF unset] by blast
  with init_result [of e st] unset
  show "\<exists>st'. init e st = Inr st' \<and> fallback (fetchedLocaleMessages st') = None \<and>
      (\<forall>k subs. getMessage pt st' k subs =
         (case messages_at (target (fetchedLocaleMessages st')) k of
            None \<Rightarrow> Inr (Some '''') | Some v \<Rightarrow> render_message pt v subs))"
    by blast
qed

theorem malformed_descriptor_drops_bundle_witness:
  "has_malformed_descriptor broken_json
   \<and> map_of broken_json ''title'' = Some (title\<lparr> message := ''Portefeuille'' \<rparr>)
   \<and> serves broken_env (js_or (getSavedLocale broken_env) (getNativeLocale broken_env)) broken_json
   \<and> (\<exists>st'. init broken_env (initial_state example_table) = Inr st'
         \<and> target (fetchedLocaleMessages st') = None
         \<and> getMessage echo_template st' ''title'' (Many []) = Inr (Some ''Wallet''))"
proof -
  have h1: "has_malformed_descriptor broken_json"
    by (simp add: has_malformed_descriptor_def broken_json_def title_def)
  have h2: "serves broken_env (js_or (getSavedLocale broken_env) (getNativeLocale broken_env))
      broken_json"
    by (simp add: serves_def broken_env_def example_env_def js_or_def messages_url_def)
  have en: "fetchLocaleMessages broken_env (getDefaultLocale broken_env) = Inr (Some en_loaded)"
    by (simp add: fetchLocaleMessages_def try_catch_def broken_env_def example_env_def
        getDefaultLocale_def js_or_def messages_url_def appendPlaceholderLists_en)
  from malformed_descriptor_drops_bundle [OF h1, of broken_env _ "initial_state example_table"
      echo_template] h2
  obtain st' where st': "init broken_env (initial_state example_table) = Inr st'"
    and unset: "target (fetchedLocaleMessages st') = None"
    and msg: "\<forall>k subs. getMessage echo_template st' k subs =
        (case messages_at (fallback (fetchedLocaleMessages st')) k of
           None \<Rightarrow> Inr (Some '''') | Some v \<Rightarrow> render_message echo_template v subs)"
    by blast
  have "fallback (fetchedLocaleMessages st') = Some en_loaded"
    using st' init_result [of broken_env "initial_state example_table"] en by auto
  then have "getMessage echo_template st' ''title'' (Many []) = Inr (Some ''Wallet'')"
    using msg
    by (simp add: messages_at_def object_get_def en_loaded_def render_message_def try_catch_def
        title_def)
  with h1 h2 st' unset show ?thesis
    by (auto simp: broken_json_def)
qed

section \<open>The state during a load\<close>

lemma load_ok_mono: "load_ok world b l \<Longrightarrow> b \<le> b' \<Longrightarrow> load_ok world b' l"
  by (auto simp: load_ok_def)

lemma set_remove_at: "set (remove_at i xs) \<subseteq> set xs"
  unfolding remove_at_def by (auto dest: in_set_takeD in_set_dropD)

lemma step_consistent:
  assumes "step world s s'" and "consistent world old s"
  shows "consistent world old s'"
  using assms
proof (cases rule: step.cases)
  case call_init
  have "load_ok world (Suc (started s)) (new_load (started s))"
    by (simp add: load_ok_def new_load_def)
  moreover have "\<forall>l \<in> set (in_flight s). load_ok world (Suc (started s)) l"
    using assms(2) by (auto simp: consistent_def intro: load_ok_mono)
  moreover have "fetchedLocaleMessages (memory s) = old \<or>
       (\<exists>n < Suc (started s). loaded_pair (world n) (fetchedLocaleMessages (memory s)))"
    using assms(2) by (auto simp: consistent_def intro: less_SucI)
  ultimately show ?thesis
    unfolding call_init consistent_def by simp
next
  case (target_settles i l e r)
  have l: "load_ok world (started s) l"
    using assms(2) target_settles(2,3) by (simp add: consistent_def)
  have "load_ok world (started s)
          (l\<lparr> refetched := (refetched l)\<lparr> target := r \<rparr>, target_settled := True \<rparr>)"
    using l target_settles(5,6) by (simp add: load_ok_def)
  then have "\<forall>l' \<in> set ((in_flight s)[i := l\<lparr> refetched := (refetched l)\<lparr> target := r \<rparr>,
                 target_settled := True \<rparr>]). load_ok world (started s) l'"
    using assms(2) by (auto simp: consistent_def dest!: set_update_subset_insert [THEN subsetD])
  then show ?thesis
    using assms(2) unfolding target_settles(1) consistent_def by simp
next
  case (fallback_settles i l e r)
  have l: "load_ok world (started s) l"
    using assms(2) fallback_settles(2,3) by (simp add: consistent_def)
  have "load_ok world (started s)
          (l\<lparr> refetched := (refetched l)\<lparr> fallback := r \<rparr>, fallback_settled := True \<rparr>)"
    using l fallback_settles(5,6) by (simp add: load_ok_def)
  then have "\<forall>l' \<in> set ((in_flight s)[i := l\<lparr> refetched := (refetched l)\<lparr> fallback := r \<rparr>,
                 fallback_settled := True \<rparr>]). load_ok world (started s) l'"
    using assms(2) by (auto simp: consistent_def dest!: set_update_subset_insert [THEN subsetD])
  then show ?thesis
    using assms(2) unfolding fallback_settles(1) consistent_def by simp
next
  case (init_returns i l now)
  have l: "load_ok world (started s) l"
    using assms(2) init_returns(2,3) by (simp add: consistent_def)
  then have "load_id l < started s \<and> loaded_pair (world (load_id l)) (refetched l)"
    using init_returns(4,5) by (simp add: load_ok_def loaded_pair_def)
  moreover have "\<forall>l' \<in> set (remove_at i (in_flight s)). load_ok world (started s) l'"
    using assms(2) set_remove_at [of i "in_flight s"] by (auto simp: consistent_def)
  ultimately show ?thesis
    unfolding init_returns(1) consistent_def by auto
next
  case (init_rejects i l e err)
  have "\<forall>l' \<in> set (remove_at i (in_flight s)). load_ok world (started s) l'"
    using assms(2) set_remove_at [of i "in_flight s"] by (auto simp: consistent_def)
  then show ?thesis
    using assms(2) unfolding init_rejects(1) consistent_def by simp
qed

lemma run_consistent:
  "run world s s' \<Longrightarrow> consistent world old s \<Longrightarrow> consistent world old s'"
  by (induction rule: run.induct) (auto intro: step_consistent)

lemma boot_consistent: "consistent world (fetchedLocaleMessages st) (boot st)"
  by (simp add: consistent_def boot_def)

lemma loaded_pair_init:
  "loaded_pair e fetched \<Longrightarrow>
   init e st = Inr (st\<lparr> fetchedLocaleMessages := fetched, cldrLocale := new_cldrLocale e \<rparr>)"
  by (simp add: loaded_pair_def init_def Let_def)

text \<open>
  C6. Start from any state of the module with no load under way, and let calls of
  \<^verbatim>\<open>init\<close> start, have their fetches settle and return in any order, one overlapping
  another. At every moment the bundle pair in the module's variable is the pair it
  started with or, whole, the pair that one of the calls made so far builds from its own
  two fetches: never the target of one load with the fallback of another, nor a pair with
  a slot still to come.
\<close>

theorem bundle_pair_never_partial:
  assumes "run world (boot st) s"
  shows "fetchedLocaleMessages (memory s) = fetchedLocaleMessages st \<or>
     (\<exists>n < started s. \<exists>st'. init (world n) st = Inr st' \<and>
        fetchedLocaleMessages (memory s) = fetchedLocaleMessages st')"
proof -
  have "consistent world (fetchedLocaleMessages st) s"
    using assms boot_consistent by (rule run_consistent)
  then show ?thesis
    unfolding consistent_def using loaded_pair_init by fastforce
qed

lemma example_run: "run example_world (boot (initial_state example_table)) turn4"
proof -
  let ?s0 = "boot (initial_state example_table)"
  have "step example_world ?s0
      (?s0\<lparr> in_flight := in_flight ?s0 @ [new_load (started ?s0)],
            started := Suc (started ?s0) \<rparr>)"
    by (rule call_init)
  then have 1: "step example_world ?s0 turn1"
    by (simp add: boot_def turn1_def)
  have "step example_world turn1
      (turn1\<lparr> in_flight := (in_flight turn1)[0 :=
          (new_load 0)\<lparr> refetched := (refetched (new_load 0))\<lparr> target := None \<rparr>,
                         target_settled := True \<rparr>] \<rparr>)"
    by (rule target_settles [where i = 0 and s = turn1 and l = "new_load 0"
          and e = example_env and r = None])
       (simp_all add: turn1_def new_load_def example_world_def example_target_fetch)
  then have 2: "step example_world turn1 turn2"
    by (simp add: turn1_def turn2_def new_load_def)
  let ?l2 = "\<lparr> load_id = 0, refetched = \<lparr> target = None, fallback = None \<rparr>,
      target_settled = True, fallback_settled = False \<rparr>"
  have "step example_world turn2
      (turn2\<lparr> in_flight := (in_flight turn2)[0 :=
          ?l2\<lparr> refetched := (refetched ?l2)\<lparr> fallback := Some en_loaded \<rparr>,
                fallback_settled := True \<rparr>] \<rparr>)"
    by (rule fallback_settles [where i = 0 and s = turn2 and l = ?l2
          and e = example_env and r = "Some en_loaded"])
       (simp_all add: turn2_def example_world_def example_fallback_fetch)
  then have 3: "step example_world turn2 turn3"
    by (simp add: turn2_def turn3_def)
  let ?l3 = "\<lparr> load_id = 0, refetched = \<lparr> target = None, fallback = Some en_loaded \<rparr>,
      target_settled = True, fallback_settled = True \<rparr>"
  have "step example_world turn3
      (turn3\<lparr> memory := (memory turn3)\<lparr> fetchedLocaleMessages := refetched ?l3,
                                         cldrLocale := new_cldrLocale example_env \<rparr>,
              in_flight := remove_at 0 (in_flight turn3) \<rparr>)"
    by (rule init_returns [where i = 0 and s = turn3 and l = ?l3 and now = example_env])
       (simp_all add: turn3_def)
  moreover have "new_cldrLocale example_env = Own (en example_table)"
    by (simp add: new_cldrLocale_def cldr_lookup_def object_get_def object_prototype_names_def
        getCurrentLocale_def getNativeLocale_def js_or_def example_env_def example_table_def)
  ultimately have 4: "step example_world turn3 turn4"
    by (simp add: turn3_def turn4_def remove_at_def initial_state_def)
  show ?thesis
    by (rule run_step [OF run_step [OF run_step [OF run_step [OF run_refl 1] 2] 3] 4])
qed

theorem bundle_pair_never_partial_witness:
  "run example_world (boot (initial_state example_table)) turn4
   \<and> fetchedLocaleMessages (memory turn4) = \<lparr> target = None, fallback = Some en_loaded \<rparr>
   \<and> (\<exists>st'. init (example_world 0) (initial_state example_table) = Inr st'
         \<and> fetchedLocaleMessages (memory turn4) = fetchedLocaleMessages st')"
proof -
  have differs: "fetchedLocaleMessages (memory turn4)
      \<noteq> fetchedLocaleMessages (initial_state example_table)"
    by (simp add: turn4_def initial_state_def)
  have "started turn4 = 1"
    by (simp add: turn4_def)
  with bundle_pair_never_partial [OF example_run] differs
  have "\<exists>st'. init (example_world 0) (initial_state example_table) = Inr st'
      \<and> fetchedLocaleMessages (memory turn4) = fetchedLocaleMessages st'"
    by auto
  then show ?thesis
    using example_run by (simp add: turn4_def)
qed

end
